theory Spec2Isabelle
  imports Complex_Main
begin

section \<open>JavaScript numbers as the extractor scripts use them\<close>

text \<open>
  The scripts handed to \<^verbatim>\<open>page.evaluate\<close> compute with JavaScript numbers, that is
  IEEE 754 binary64 values. \<^verbatim>\<open>parseCount\<close> only ever produces non-negative values, an
  infinity (a digit string too long for a double) or \<^verbatim>\<open>NaN\<close>, so a number is a
  non-negative rational that is a double, \<open>Infinity\<close> or \<open>NaN\<close>.
\<close>

datatype jsnum = Finite rat | Infinity | NaN

definition pow2 :: "int \<Rightarrow> rat" where
  "pow2 e = (if 0 \<le> e then 2 ^ nat e else 1 / 2 ^ nat (- e))"

text \<open>The number of binary digits of a positive integer (0 for the others).\<close>

function bitlen :: "int \<Rightarrow> int" where
  "bitlen n = (if n \<le> 0 then 0 else 1 + bitlen (n div 2))"
  by pat_completeness auto
termination
  by (relation "measure nat") auto

declare bitlen.simps [simp del]

text \<open>The exponent \<open>e\<close> with \<open>2^e \<le> x < 2^(e+1)\<close>, for a positive rational \<open>x\<close>.\<close>

definition binade :: "rat \<Rightarrow> int" where
  "binade x = (if 1 \<le> x then bitlen \<lfloor>x\<rfloor> - 1 else - bitlen (\<lceil>1 / x\<rceil> - 1))"

text \<open>Rounding to the nearest integer, a tie going to the even neighbour.\<close>

definition round_ties_even :: "rat \<Rightarrow> int" where
  "round_ties_even x =
     (let f = \<lfloor>x\<rfloor>; d = x - of_int f
      in if d < 1 / 2 then f
         else if 1 / 2 < d then f + 1
         else if even f then f else f + 1)"

text \<open>
  The double nearest to a non-negative rational (round to nearest, ties to even): 53
  significant bits in the normal range, multiples of \<open>2^-1074\<close> below \<open>2^-1022\<close>, and
  \<open>Infinity\<close> once the rounded value reaches \<open>2^1024\<close>.
\<close>

definition to_double :: "rat \<Rightarrow> jsnum" where
  "to_double x =
     (if x \<le> 0 then Finite 0
      else let e = max (binade x) (- 1022);
               q = pow2 (e - 52);
               y = of_int (round_ties_even (x / q)) * q
           in if pow2 1024 \<le> y then Infinity else Finite y)"

text \<open>\<^verbatim>\<open>num * k\<close> for one of the positive literals \<^verbatim>\<open>1000\<close>, \<^verbatim>\<open>1000000\<close>, \<^verbatim>\<open>1000000000\<close>.\<close>

fun js_times :: "jsnum \<Rightarrow> rat \<Rightarrow> jsnum" where
  "js_times (Finite a) k = to_double (a * k)"
| "js_times Infinity k = Infinity"
| "js_times NaN k = NaN"

text \<open>\<^verbatim>\<open>Math.floor\<close>: the floor of a double is a double; \<open>Infinity\<close> and \<open>NaN\<close> pass through.\<close>

fun Math_floor :: "jsnum \<Rightarrow> jsnum" where
  "Math_floor (Finite a) = Finite (of_int \<lfloor>a\<rfloor>)"
| "Math_floor Infinity = Infinity"
| "Math_floor NaN = NaN"

subsection \<open>\<^verbatim>\<open>parseFloat\<close> on strings of digits and dots\<close>

definition is_digit :: "char \<Rightarrow> bool" where
  "is_digit c = (48 \<le> (of_char c :: nat) \<and> (of_char c :: nat) \<le> 57)"

definition digit_val :: "char \<Rightarrow> int" where
  "digit_val c = of_char c - 48"

text \<open>The value of a digit string read as a decimal numeral (0 for the empty string).\<close>

definition digits_val :: "string \<Rightarrow> int" where
  "digits_val ds = foldl (\<lambda>a c. 10 * a + digit_val c) 0 ds"

text \<open>
  \<^verbatim>\<open>parseFloat\<close> reads the longest prefix that is a decimal literal: digits, then
  optionally a dot and more digits; or a dot followed by at least one digit. It gives
  \<^verbatim>\<open>NaN\<close> when no such prefix exists. Both scripts call it only on strings made of
  digits and dots (lemmas \<open>parseFloat_argument_instagram\<close> and
  \<open>parseFloat_argument_tiktok\<close> below), so signs, exponents, leading white space and the
  word \<^verbatim>\<open>Infinity\<close> never occur and any other character just ends the literal. The
  value is the double nearest to the decimal numeral, as the engines compute it (the
  language standard also allows them to round a numeral of more than 20 significant
  digits first).
\<close>

definition parseFloat :: "string \<Rightarrow> jsnum" where
  "parseFloat s =
     (let ip = takeWhile is_digit s;
          r = dropWhile is_digit s;
          fp = (case r of c # r' \<Rightarrow> if c = CHR ''.'' then takeWhile is_digit r' else [] | [] \<Rightarrow> [])
      in if ip = [] \<and> fp = [] then NaN
         else to_double (of_int (digits_val (ip @ fp)) / 10 ^ length fp))"

section \<open>The count normalizers\<close>

definition is_suffix_letter :: "char \<Rightarrow> bool" where
  "is_suffix_letter c = (c = CHR ''K'' \<or> c = CHR ''M'' \<or> c = CHR ''B'')"

text \<open>\<^verbatim>\<open>([KMB]?)\<close> at the start of \<open>s\<close>: its first character when that is K, M or B.\<close>

definition suffix_group :: "string \<Rightarrow> string" where
  "suffix_group s = (case s of [] \<Rightarrow> [] | k # _ \<Rightarrow> if is_suffix_letter k then [k] else [])"

text \<open>
  \<^verbatim>\<open>text.match(/([C]+)([KMB]?)/)\<close> for a character class \<open>C\<close>, without the global flag:
  the leftmost position where a character of \<open>C\<close> stands, the longest run of \<open>C\<close> from
  there (group 1) and the next character when it is one of K, M, B (group 2, else the
  empty string); \<^verbatim>\<open>null\<close> when the text has no character of \<open>C\<close>.
\<close>

definition js_match :: "(char \<Rightarrow> bool) \<Rightarrow> string \<Rightarrow> (string \<times> string) option" where
  "js_match cls text =
     (case dropWhile (\<lambda>c. \<not> cls c) text of
        [] \<Rightarrow> None
      | c # cs \<Rightarrow> Some (takeWhile cls (c # cs), suffix_group (dropWhile cls (c # cs))))"

text \<open>The last four lines shared by the two scripts: the suffix picks the multiplier.\<close>

definition scale_floor :: "jsnum \<Rightarrow> string \<Rightarrow> jsnum" where
  "scale_floor num suffix =
     (if suffix = ''K'' then Math_floor (js_times num 1000)
      else if suffix = ''M'' then Math_floor (js_times num 1000000)
      else if suffix = ''B'' then Math_floor (js_times num 1000000000)
      else Math_floor num)"

text \<open>The class \<^verbatim>\<open>[\d,.]\<close> of the Instagram script.\<close>

definition cls_instagram :: "char \<Rightarrow> bool" where
  "cls_instagram c = (is_digit c \<or> c = CHR '','' \<or> c = CHR ''.'')"

text \<open>\<^verbatim>\<open>parseCount\<close> of \<^verbatim>\<open>instagram.py\<close>, lines 92 to 104.\<close>

definition parseCount_instagram :: "string \<Rightarrow> jsnum" where
  "parseCount_instagram text =
     (if text = [] then Finite 0
      else case js_match cls_instagram text of
             None \<Rightarrow> Finite 0
           | Some (m1, m2) \<Rightarrow>
               scale_floor (parseFloat (filter (\<lambda>c. c \<noteq> CHR '','') m1)) m2)"

text \<open>The class \<^verbatim>\<open>[\d.]\<close> and the characters \<^verbatim>\<open>[\d.KMB]\<close> kept by the TikTok script.\<close>

definition cls_tiktok :: "char \<Rightarrow> bool" where
  "cls_tiktok c = (is_digit c \<or> c = CHR ''.'')"

definition kept_tiktok :: "char \<Rightarrow> bool" where
  "kept_tiktok c = (is_digit c \<or> c = CHR ''.'' \<or> is_suffix_letter c)"

text \<open>\<^verbatim>\<open>parseCount\<close> of \<^verbatim>\<open>tiktok.py\<close>, lines 92 to 108.\<close>

definition parseCount_tiktok :: "string \<Rightarrow> jsnum" where
  "parseCount_tiktok text =
     (if text = [] then Finite 0
      else let cleaned = filter kept_tiktok text
           in case js_match cls_tiktok cleaned of
                None \<Rightarrow> Finite 0
              | Some (m1, m2) \<Rightarrow> scale_floor (parseFloat m1) m2)"

section \<open>The page as the extractor scripts read it\<close>

text \<open>
  The selector engine of the browser is not modelled. A page is given by what each
  selector matches, in document order: \<^verbatim>\<open>querySelectorAll\<close> returns that list and
  \<^verbatim>\<open>querySelector\<close> its first element or \<^verbatim>\<open>null\<close>. An element carries the properties
  the scripts read: \<^verbatim>\<open>textContent\<close>, \<^verbatim>\<open>getAttribute('title')\<close> (\<^verbatim>\<open>null\<close> when the
  attribute is absent), \<^verbatim>\<open>src\<close>, \<^verbatim>\<open>href\<close>, and the matches of selectors below it.
\<close>

datatype element =
  Element (textContent: string) (title_attr: "string option") (src: string) (href: string)
    (below: "(string \<times> element list) list")

type_synonym matches = "(string \<times> element list) list"

definition querySelectorAll :: "matches \<Rightarrow> string \<Rightarrow> element list" where
  "querySelectorAll m sel = (case map_of m sel of None \<Rightarrow> [] | Some es \<Rightarrow> es)"

definition querySelector :: "matches \<Rightarrow> string \<Rightarrow> element option" where
  "querySelector m sel = (case querySelectorAll m sel of [] \<Rightarrow> None | e # _ \<Rightarrow> Some e)"

text \<open>\<^verbatim>\<open>a || b\<close> on strings: the empty string is falsy.\<close>

definition js_or :: "string \<Rightarrow> string \<Rightarrow> string" where
  "js_or a b = (if a = [] then b else a)"

text \<open>
  \<^verbatim>\<open>String.prototype.trim\<close>, for the white space of ASCII (tab, line feed, vertical tab,
  form feed, carriage return, space).
\<close>

definition is_space :: "char \<Rightarrow> bool" where
  "is_space c = ((of_char c :: nat) \<in> {9, 10, 11, 12, 13, 32})"

definition js_trim :: "string \<Rightarrow> string" where
  "js_trim s = rev (dropWhile is_space (rev (dropWhile is_space s)))"

text \<open>\<^verbatim>\<open>s.includes(t)\<close>: \<open>t\<close> occurs in \<open>s\<close> as a contiguous run.\<close>

fun includes_js :: "string \<Rightarrow> string \<Rightarrow> bool" where
  "includes_js [] t = (t = [])"
| "includes_js (c # cs) t = (take (length t) (c # cs) = t \<or> includes_js cs t)"

text \<open>\<^verbatim>\<open>el?.textContent?.trim() || ''\<close> for the result \<open>el\<close> of a \<^verbatim>\<open>querySelector\<close>.\<close>

definition trimmed_text :: "element option \<Rightarrow> string" where
  "trimmed_text el = (case el of None \<Rightarrow> [] | Some e \<Rightarrow> js_or (js_trim (textContent e)) [])"

text \<open>\<^verbatim>\<open>el?.src || ''\<close> and \<^verbatim>\<open>el?.href || ''\<close>.\<close>

definition src_or_empty :: "element option \<Rightarrow> string" where
  "src_or_empty el = (case el of None \<Rightarrow> [] | Some e \<Rightarrow> js_or (src e) [])"

definition href_or_empty :: "element option \<Rightarrow> string" where
  "href_or_empty el = (case el of None \<Rightarrow> [] | Some e \<Rightarrow> js_or (href e) [])"

subsection \<open>The Instagram script (\<^verbatim>\<open>instagram.py\<close>, lines 89 to 150)\<close>

record instagram_data =
  ig_username :: string
  ig_fullName :: string
  ig_bio :: string
  ig_followers :: jsnum
  ig_following :: jsnum
  ig_posts :: jsnum
  ig_profilePicUrl :: string
  ig_isVerified :: bool
  ig_isPrivate :: bool
  ig_scrapedAt :: string

definition sel_verified_svg :: string where
  \<open>sel_verified_svg = ''svg[aria-label="Verified"]''\<close>

text \<open>\<^verbatim>\<open>stats[i] || '0'\<close>: an index past the end gives \<^verbatim>\<open>undefined\<close>, which is falsy.\<close>

definition stat_or_zero :: "string list \<Rightarrow> nat \<Rightarrow> string" where
  "stat_or_zero stats i = (if i < length stats then js_or (stats ! i) ''0'' else ''0'')"

definition extract_instagram :: "string \<Rightarrow> matches \<Rightarrow> instagram_data" where
  "extract_instagram now doc =
     (let stats = map (\<lambda>li. js_or (js_trim (textContent li)) [])
                    (querySelectorAll doc ''header section ul li'');
          username = trimmed_text (querySelector doc ''header h2'');
          bio = trimmed_text (querySelector doc ''header section div span'');
          isVerified = (querySelector doc sel_verified_svg \<noteq> None);
          isPrivate = (case querySelector doc ''h2'' of
                         None \<Rightarrow> False
                       | Some e \<Rightarrow> includes_js (textContent e) ''Private'');
          profilePicUrl = src_or_empty (querySelector doc ''header img'');
          fullName = trimmed_text (querySelector doc ''header section div div span'');
          posts = parseCount_instagram (stat_or_zero stats 0);
          followers = parseCount_instagram (stat_or_zero stats 1);
          following = parseCount_instagram (stat_or_zero stats 2)
      in \<lparr>ig_username = username, ig_fullName = fullName, ig_bio = bio,
          ig_followers = followers, ig_following = following, ig_posts = posts,
          ig_profilePicUrl = profilePicUrl, ig_isVerified = isVerified,
          ig_isPrivate = isPrivate, ig_scrapedAt = now\<rparr>)"

subsection \<open>The TikTok script (\<^verbatim>\<open>tiktok.py\<close>, lines 89 to 169)\<close>

record video =
  link :: string
  views :: jsnum

record tiktok_data =
  tt_username :: string
  tt_bio :: string
  tt_avatar :: string
  tt_followers :: jsnum
  tt_following :: jsnum
  tt_likes :: jsnum
  tt_videos :: nat
  tt_verified :: bool
  tt_recentVideos :: "video list"
  tt_scrapedAt :: string

definition sel_user_title :: string where
  \<open>sel_user_title = ''[data-e2e="user-title"]''\<close>

definition sel_user_bio :: string where
  \<open>sel_user_bio = ''[data-e2e="user-bio"]''\<close>

definition sel_user_avatar :: string where
  \<open>sel_user_avatar = ''[data-e2e="user-avatar"] img''\<close>

definition sel_followers :: string where
  \<open>sel_followers = ''[title*="Followers"], [data-e2e="followers-count"]''\<close>

definition sel_following :: string where
  \<open>sel_following = ''[title*="Following"], [data-e2e="following-count"]''\<close>

definition sel_likes :: string where
  \<open>sel_likes = ''[title*="Likes"], [data-e2e="likes-count"]''\<close>

definition sel_verified_badge :: string where
  \<open>sel_verified_badge = ''[data-e2e="user-verified-badge"]''\<close>

definition sel_post_item :: string where
  \<open>sel_post_item = ''[data-e2e="user-post-item"]''\<close>

definition sel_video_views :: string where
  \<open>sel_video_views = ''[data-e2e="video-views"]''\<close>

text \<open>\<^verbatim>\<open>el?.getAttribute('title') || el?.textContent || '0'\<close>.\<close>

definition stat_text :: "element option \<Rightarrow> string" where
  "stat_text el =
     (case el of
        None \<Rightarrow> ''0''
      | Some e \<Rightarrow>
          js_or (case title_attr e of None \<Rightarrow> [] | Some t \<Rightarrow> t) (js_or (textContent e) ''0''))"

text \<open>\<^verbatim>\<open>viewsElement?.textContent || '0'\<close>.\<close>

definition views_text :: "element option \<Rightarrow> string" where
  "views_text el = (case el of None \<Rightarrow> ''0'' | Some e \<Rightarrow> js_or (textContent e) ''0'')"

text \<open>The arrow function mapped over the first twelve post items.\<close>

definition video_of_item :: "element \<Rightarrow> video" where
  "video_of_item item =
     \<lparr>link = href_or_empty (querySelector (below item) ''a''),
      views = parseCount_tiktok (views_text (querySelector (below item) sel_video_views))\<rparr>"

definition extract_tiktok :: "string \<Rightarrow> matches \<Rightarrow> tiktok_data" where
  "extract_tiktok now doc =
     (let username = trimmed_text (querySelector doc sel_user_title);
          bio = trimmed_text (querySelector doc sel_user_bio);
          avatar = src_or_empty (querySelector doc sel_user_avatar);
          followers = parseCount_tiktok (stat_text (querySelector doc sel_followers));
          following = parseCount_tiktok (stat_text (querySelector doc sel_following));
          likes = parseCount_tiktok (stat_text (querySelector doc sel_likes));
          verified = (querySelector doc sel_verified_badge \<noteq> None);
          videos = length (querySelectorAll doc sel_post_item);
          recentVideos = map video_of_item (take 12 (querySelectorAll doc sel_post_item))
      in \<lparr>tt_username = username, tt_bio = bio, tt_avatar = avatar,
          tt_followers = followers, tt_following = following, tt_likes = likes,
          tt_videos = videos, tt_verified = verified, tt_recentVideos = recentVideos,
          tt_scrapedAt = now\<rparr>)"

section \<open>The scrape job\<close>

text \<open>
  \<^verbatim>\<open>scrape_instagram_profile\<close> and \<^verbatim>\<open>scrape_tiktok_profile\<close> have the same body up to
  the profile URL, the readiness selector, the script and the platform tag of the
  webhook payload. Every awaited call either returns or raises a Python \<^verbatim>\<open>Exception\<close>;
  the outcome of each call is read from a world, so that a fault can be injected at any
  stage. The job is handed a started browser engine (\<^verbatim>\<open>async_playwright()\<close>), and
  \<^verbatim>\<open>browser.close()\<close> returns; printing to the log is not tracked.
\<close>

datatype exn = Exn (str: string)

record job =
  username :: string
  job_id :: string
  webhook_url :: string

text \<open>The JSON body of a webhook call: a dictionary with or without \<^verbatim>\<open>data\<close> and \<^verbatim>\<open>error\<close>.\<close>

record 'd payload =
  jobId :: string
  status :: string
  platform :: string
  data :: "'d option"
  error :: "string option"

datatype 'd event =
  Launch | NewContext | NewPage | Goto string | WaitForSelector string | Evaluate
  | Post string "'d payload" | Close

record 'd world =
  launch :: "exn option"
  new_context :: "exn option"
  new_page :: "exn option"
  goto :: "string \<Rightarrow> exn option"
  wait_for_selector :: "string \<Rightarrow> exn option"
  evaluate_fault :: "exn option"
  page_dom :: matches
  clock :: string
  post :: "string \<Rightarrow> 'd payload \<Rightarrow> exn + nat"

record 'd variant =
  platform_tag :: string
  profile_url :: "string \<Rightarrow> string"
  ready_selector :: string
  script :: "string \<Rightarrow> matches \<Rightarrow> 'd"

definition success_payload :: "'d variant \<Rightarrow> job \<Rightarrow> 'd \<Rightarrow> 'd payload" where
  "success_payload v j d =
     \<lparr>jobId = job_id j, status = ''completed'', platform = platform_tag v,
      data = Some d, error = None\<rparr>"

definition failure_payload :: "'d variant \<Rightarrow> job \<Rightarrow> string \<Rightarrow> 'd payload" where
  "failure_payload v j error_msg =
     \<lparr>jobId = job_id j, status = ''failed'', platform = platform_tag v,
      data = None, error = Some error_msg\<rparr>"

text \<open>
  The body of the \<^verbatim>\<open>try\<close>: whether \<^verbatim>\<open>browser\<close> was assigned, the calls made, and the
  value returned or the exception raised. A response with an error status does not
  raise (\<^verbatim>\<open>raise_for_status\<close> is never called): only a failed transport does.
\<close>

definition try_body :: "'d variant \<Rightarrow> 'd world \<Rightarrow> job \<Rightarrow> bool \<times> 'd event list \<times> (exn + 'd)" where
  "try_body v w j =
     (case launch w of
        Some e \<Rightarrow> (False, [Launch], Inl e)
      | None \<Rightarrow>
     (case new_context w of
        Some e \<Rightarrow> (True, [Launch, NewContext], Inl e)
      | None \<Rightarrow>
     (case new_page w of
        Some e \<Rightarrow> (True, [Launch, NewContext, NewPage], Inl e)
      | None \<Rightarrow>
     (let url = profile_url v (username j);
          t4 = [Launch, NewContext, NewPage, Goto url]
      in case goto w url of
        Some e \<Rightarrow> (True, t4, Inl e)
      | None \<Rightarrow>
     (let t5 = t4 @ [WaitForSelector (ready_selector v)]
      in case wait_for_selector w (ready_selector v) of
        Some e \<Rightarrow> (True, t5, Inl e)
      | None \<Rightarrow>
     (let t6 = t5 @ [Evaluate]
      in case evaluate_fault w of
        Some e \<Rightarrow> (True, t6, Inl e)
      | None \<Rightarrow>
     (let d = script v (clock w) (page_dom w);
          t7 = t6 @ [Post (webhook_url j) (success_payload v j d)]
      in case post w (webhook_url j) (success_payload v j d) of
        Inl e \<Rightarrow> (True, t7, Inl e)
      | Inr webhook_response \<Rightarrow> (True, t7, Inr d))))))))"

text \<open>
  The \<^verbatim>\<open>except Exception as e\<close> clause: the failure webhook is posted, an exception of
  that call is caught and dropped, and \<open>e\<close> is raised again.
\<close>

definition except_clause :: "'d variant \<Rightarrow> 'd world \<Rightarrow> job \<Rightarrow> exn \<Rightarrow> 'd event list \<times> (exn + 'd)" where
  "except_clause v w j e =
     (let error_msg = str e;
          p = failure_payload v j error_msg
      in case post w (webhook_url j) p of
           Inl webhook_error \<Rightarrow> ([Post (webhook_url j) p], Inl e)
         | Inr r \<Rightarrow> ([Post (webhook_url j) p], Inl e))"

text \<open>The whole statement: \<^verbatim>\<open>try\<close>, \<^verbatim>\<open>except\<close>, and \<^verbatim>\<open>finally: if browser: await browser.close()\<close>.\<close>

definition scrape_profile :: "'d variant \<Rightarrow> 'd world \<Rightarrow> job \<Rightarrow> 'd event list \<times> (exn + 'd)" where
  "scrape_profile v w j =
     (case try_body v w j of
        (browser, t, r) \<Rightarrow>
          (let (t', r') = (case r of
                             Inl e \<Rightarrow> (case except_clause v w j e of (th, rh) \<Rightarrow> (t @ th, rh))
                           | Inr d \<Rightarrow> (t, Inr d))
           in if browser then (t' @ [Close], r') else (t', r')))"

definition instagram :: "instagram_data variant" where
  "instagram =
     \<lparr>platform_tag = ''Instagram'',
      profile_url = (\<lambda>u. ''https://www.instagram.com/'' @ u @ ''/''),
      ready_selector = ''header'',
      script = extract_instagram\<rparr>"

definition sel_user_page :: string where
  \<open>sel_user_page = ''[data-e2e="user-page"]''\<close>

definition tiktok :: "tiktok_data variant" where
  "tiktok =
     \<lparr>platform_tag = ''TikTok'',
      profile_url = (\<lambda>u. ''https://www.tiktok.com/@'' @ u),
      ready_selector = sel_user_page,
      script = extract_tiktok\<rparr>"

definition scrape_instagram_profile :: "instagram_data world \<Rightarrow> job \<Rightarrow> instagram_data event list \<times> (exn + instagram_data)" where
  "scrape_instagram_profile w j = scrape_profile instagram w j"

definition scrape_tiktok_profile :: "tiktok_data world \<Rightarrow> job \<Rightarrow> tiktok_data event list \<times> (exn + tiktok_data)" where
  "scrape_tiktok_profile w j = scrape_profile tiktok w j"

text \<open>What a mock HTTP sink and a release hook would count.\<close>

fun is_post :: "'d event \<Rightarrow> bool" where
  "is_post (Post u p) = True"
| "is_post _ = False"

fun is_close :: "'d event \<Rightarrow> bool" where
  "is_close Close = True"
| "is_close _ = False"

definition webhook_calls :: "'d event list \<Rightarrow> nat" where
  "webhook_calls t = length (filter is_post t)"

definition releases :: "'d event list \<Rightarrow> nat" where
  "releases t = length (filter is_close t)"

section \<open>The reference algorithm of the specification\<close>









section \<open>Fixtures: a job and some worlds\<close>

definition job1 :: job where
  "job1 = \<lparr>username = ''nike'', job_id = ''test-123'', webhook_url = ''https://httpbin.org/post''\<rparr>"

definition healthy :: "matches \<Rightarrow> 'd world" where
  "healthy doc =
     \<lparr>launch = None, new_context = None, new_page = None,
      goto = (\<lambda>url. None), wait_for_selector = (\<lambda>sel. None),
      evaluate_fault = None, page_dom = doc, clock = ''2024-01-01T00:00:00.000Z'',
      post = (\<lambda>url p. Inr 200)\<rparr>"

definition sink_down :: "'d world" where
  "sink_down = (healthy []) \<lparr>post := (\<lambda>url p. Inl (Exn ''ConnectError''))\<rparr>"

definition sink_rejects_success :: "'d world" where
  "sink_rejects_success =
     (healthy []) \<lparr>post := (\<lambda>url p. if status p = ''completed'' then Inl (Exn ''ReadTimeout'') else Inr 200)\<rparr>"

definition navigation_timeout :: "'d world" where
  "navigation_timeout = (healthy []) \<lparr>goto := (\<lambda>url. Some (Exn ''Timeout 30000ms exceeded.''))\<rparr>"

definition launch_fails :: "'d world" where
  "launch_fails = (healthy []) \<lparr>launch := Some (Exn ''Executable does not exist'')\<rparr>"


definition page_without_bio_and_avatar :: matches where
  "page_without_bio_and_avatar =
     [(''header h2'', [Element ''nike'' None [] [] []]),
      (''h2'', [Element ''nike'' None [] [] []]),
      (''header section ul li'',
         [Element ''100 posts'' None [] [] [],
          Element ''10M followers'' None [] [] [],
          Element ''50 following'' None [] [] []])]"

definition tiktok_page_two_items :: matches where
  "tiktok_page_two_items =
     [(sel_user_title, [Element ''charlidamelio'' None [] [] []]),
      (sel_followers, [Element ''155.2M'' None [] [] []]),
      (sel_post_item,
         [Element [] None [] []
            [(''a'', [Element [] None [] ''https://www.tiktok.com/@charlidamelio/video/1'' []]),
             (sel_video_views, [Element ''1.2M'' None [] [] []])],
          Element [] None [] [] []])]"

section \<open>The model of the doubles\<close>

text \<open>A code equation that squares, so that \<open>2^1024\<close> takes ten steps to evaluate.\<close>

lemma pow2_code [code]:
  "pow2 e = (if e = 0 then 1
             else if e < 0 then 1 / pow2 (- e)
             else let h = pow2 (e div 2) in if even e then h * h else 2 * h * h)"
proof -
  have pos: "pow2 e = (let h = pow2 (e div 2) in if even e then h * h else 2 * h * h)" if "0 < e"
  proof (cases "even e")
    case True
    then obtain k where k: "e = 2 * k" by (auto elim: evenE)
    with that have "0 < k" by simp
    then have "nat e = nat k + nat k" using k by simp
    then show ?thesis using True k \<open>0 < k\<close>
      by (simp add: pow2_def Let_def power_add)
  next
    case False
    then obtain k where k: "e = 2 * k + 1" by (auto elim: oddE)
    with that have "0 \<le> k" by simp
    then have "nat e = Suc (nat k + nat k)" using k by simp
    then show ?thesis using False k \<open>0 \<le> k\<close>
      by (simp add: pow2_def Let_def power_add)
  qed
  show ?thesis
  proof (cases "e = 0")
    case True then show ?thesis by (simp add: pow2_def)
  next
    case False
    show ?thesis
    proof (cases "e < 0")
      case True then show ?thesis by (simp add: pow2_def)
    next
      case False
      with \<open>e \<noteq> 0\<close> have "0 < e" by simp
      from pos [OF this] show ?thesis using \<open>0 < e\<close> by simp
    qed
  qed
qed

lemma bitlen_nonpos: "n \<le> 0 \<Longrightarrow> bitlen n = 0"
  by (simp add: bitlen.simps)

lemma bitlen_pos: "0 < n \<Longrightarrow> bitlen n = 1 + bitlen (n div 2)"
  by (subst bitlen.simps) simp

lemma bitlen_bounds:
  "0 < n \<Longrightarrow> 1 \<le> bitlen n \<and> 2 ^ nat (bitlen n - 1) \<le> n \<and> n < 2 ^ nat (bitlen n)"
proof (induction n rule: bitlen.induct)
  case (1 n)
  show ?case
  proof (cases "n div 2 = 0")
    case True
    with "1.prems" have "n = 1" by presburger
    then show ?thesis by (simp add: bitlen_pos bitlen_nonpos)
  next
    case False
    with "1.prems" have m: "0 < n div 2" by presburger
    with "1.IH" "1.prems" have ih: "1 \<le> bitlen (n div 2)"
      "2 ^ nat (bitlen (n div 2) - 1) \<le> n div 2" "n div 2 < 2 ^ nat (bitlen (n div 2))"
      by simp_all
    have b: "bitlen n = 1 + bitlen (n div 2)" using "1.prems" by (rule bitlen_pos)
    have e: "nat (bitlen n - 1) = Suc (nat (bitlen (n div 2) - 1))"
      "nat (bitlen n) = Suc (nat (bitlen (n div 2)))"
      using b ih(1) by simp_all
    have "2 * (n div 2) \<le> n" "n < 2 * (n div 2) + 2" by presburger+
    then show ?thesis using ih b e by simp
  qed
qed

lemma pow2_pos: "0 < pow2 e"
  by (simp add: pow2_def)

lemma pow2_of_nat: "0 \<le> e \<Longrightarrow> pow2 e = 2 ^ nat e"
  by (simp add: pow2_def)

lemma pow2_neg: "0 \<le> e \<Longrightarrow> pow2 (- e) = 1 / 2 ^ nat e"
  by (simp add: pow2_def)

text \<open>\<open>binade\<close> is the binary exponent of a positive rational.\<close>

lemma binade_bounds:
  assumes "0 < x"
  shows "pow2 (binade x) \<le> x \<and> x < pow2 (binade x + 1)"
proof (cases "1 \<le> x")
  case True
  let ?n = "\<lfloor>x\<rfloor>"
  have n: "0 < ?n" using True by simp
  from bitlen_bounds [OF n] have b: "1 \<le> bitlen ?n"
    "2 ^ nat (bitlen ?n - 1) \<le> ?n" "?n < 2 ^ nat (bitlen ?n)" by simp_all
  have lo: "(2::rat) ^ nat (bitlen ?n - 1) \<le> x"
  proof -
    have "(of_int (2 ^ nat (bitlen ?n - 1)) :: rat) \<le> of_int ?n" using b(2) by (simp only: of_int_le_iff)
    also have "\<dots> \<le> x" by simp
    finally show ?thesis by simp
  qed
  have hi: "x < (2::rat) ^ nat (bitlen ?n)"
  proof -
    have "?n + 1 \<le> 2 ^ nat (bitlen ?n)" using b(3) by simp
    then have "(of_int (?n + 1) :: rat) \<le> of_int (2 ^ nat (bitlen ?n))" by (simp only: of_int_le_iff)
    moreover have "x < of_int (?n + 1)" by simp linarith
    ultimately show ?thesis by simp
  qed
  have "binade x = bitlen ?n - 1" using True by (simp add: binade_def)
  then show ?thesis using lo hi b(1) by (simp add: pow2_of_nat)
next
  case False
  let ?m = "\<lceil>1 / x\<rceil> - 1"
  have inv: "1 < 1 / x" using False assms by simp
  then have m: "0 < ?m" by (simp add: less_ceiling_iff)
  from bitlen_bounds [OF m] have b: "1 \<le> bitlen ?m"
    "2 ^ nat (bitlen ?m - 1) \<le> ?m" "?m < 2 ^ nat (bitlen ?m)" by simp_all
  have up: "1 / x \<le> (2::rat) ^ nat (bitlen ?m)"
  proof -
    have "\<lceil>1 / x\<rceil> \<le> 2 ^ nat (bitlen ?m)" using b(3) by simp
    then have "1 / x \<le> of_int (2 ^ nat (bitlen ?m))" by (simp only: ceiling_le_iff)
    then show ?thesis by simp
  qed
  have dn: "(2::rat) ^ nat (bitlen ?m - 1) < 1 / x"
  proof -
    have "(of_int (2 ^ nat (bitlen ?m - 1)) :: rat) \<le> of_int ?m" using b(2) by (simp only: of_int_le_iff)
    moreover have "(of_int ?m :: rat) < 1 / x" using of_int_ceiling_diff_one_le [of "1 / x"]
      by (simp add: ceiling_correct)
    ultimately show ?thesis by simp
  qed
  have lo: "1 / (2::rat) ^ nat (bitlen ?m) \<le> x"
    using up assms by (simp add: field_simps)
  have hi: "x < 1 / (2::rat) ^ nat (bitlen ?m - 1)"
    using dn assms by (simp add: field_simps)
  have e: "binade x = - bitlen ?m" using False by (simp add: binade_def)
  have "pow2 (- bitlen ?m) = 1 / 2 ^ nat (bitlen ?m)" using b(1) by (simp add: pow2_neg)
  moreover have "pow2 (- bitlen ?m + 1) = 1 / 2 ^ nat (bitlen ?m - 1)"
    using b(1) pow2_neg [of "bitlen ?m - 1"] by simp
  ultimately show ?thesis using lo hi e by simp
qed

lemma round_ties_even_nearest:
  "\<bar>of_int (round_ties_even z) - z\<bar> \<le> 1 / 2"
proof -
  have g: "\<bar>of_int (let d = z - of_int f
                  in if d < 1 / 2 then f else if 1 / 2 < d then f + 1
                     else if even f then f else f + 1) - z\<bar> \<le> 1 / 2"
    if "of_int f \<le> z" "z < of_int f + 1" for f :: int
    using that by (auto simp: Let_def abs_if)
  have a: "of_int \<lfloor>z\<rfloor> \<le> z" by linarith
  have b: "z < of_int \<lfloor>z\<rfloor> + 1" by linarith
  show ?thesis
    unfolding round_ties_even_def Let_def by (rule g [OF a b, unfolded Let_def])
qed

lemma round_ties_even_nonneg: "0 \<le> z \<Longrightarrow> 0 \<le> round_ties_even z"
  by (auto simp: round_ties_even_def Let_def)

text \<open>The double of \<open>x\<close> lies within half a unit in the last place of \<open>x\<close>, and is not negative.\<close>

lemma to_double_nearest:
  assumes "0 < x" and "to_double x = Finite y"
  shows "\<bar>y - x\<bar> \<le> pow2 (max (binade x) (- 1022) - 52) / 2" and "0 \<le> y"
proof -
  let ?q = "pow2 (max (binade x) (- 1022) - 52)"
  have q: "0 < ?q" by (rule pow2_pos)
  from assms have y: "y = of_int (round_ties_even (x / ?q)) * ?q"
    by (simp add: to_double_def Let_def split: if_splits)
  have "\<bar>of_int (round_ties_even (x / ?q)) - x / ?q\<bar> * ?q \<le> 1 / 2 * ?q"
    using round_ties_even_nearest [of "x / ?q"] q by (intro mult_right_mono) simp_all
  moreover have "\<bar>of_int (round_ties_even (x / ?q)) - x / ?q\<bar> * ?q = \<bar>y - x\<bar>"
  proof -
    have "(of_int (round_ties_even (x / ?q)) - x / ?q) * ?q = y - x"
      using q y by (simp add: left_diff_distrib)
    then show ?thesis using abs_mult_pos [of ?q "of_int (round_ties_even (x / ?q)) - x / ?q"] q
      by simp
  qed
  ultimately show "\<bar>y - x\<bar> \<le> ?q / 2" by simp
  have "0 \<le> round_ties_even (x / ?q)"
    using assms(1) q by (intro round_ties_even_nonneg) simp
  then show "0 \<le> y" using q y by simp
qed

lemma to_double_nonneg: "to_double x = Finite y \<Longrightarrow> 0 \<le> y"
  using to_double_nearest(2) [of x y] by (cases "0 < x") (auto simp: to_double_def)

section \<open>The count normalizers and the reference algorithm\<close>

lemma letter_not_digit: "is_suffix_letter c \<Longrightarrow> \<not> is_digit c"
  by (auto simp: is_suffix_letter_def is_digit_def)

lemma cls_instagram_iff: "cls_instagram c \<longleftrightarrow> cls_tiktok c \<or> c = CHR '',''"
  by (auto simp: cls_instagram_def cls_tiktok_def)





lemma dropWhile_not_head:
  "dropWhile (\<lambda>c. \<not> cls c) s = c # cs \<Longrightarrow> cls c"
  using hd_dropWhile [of "\<lambda>c. \<not> cls c" s] by simp


lemma js_match_group1:
  "js_match cls text = Some (m1, m2) \<Longrightarrow> m1 \<noteq> [] \<and> (\<forall>c\<in>set m1. cls c)"
proof -
  assume m: "js_match cls text = Some (m1, m2)"
  then obtain c cs where d: "dropWhile (\<lambda>c. \<not> cls c) text = c # cs"
    by (cases "dropWhile (\<lambda>c. \<not> cls c) text") (auto simp: js_match_def)
  then have c: "cls c" by (rule dropWhile_not_head)
  from m d have "m1 = takeWhile cls (c # cs)" by (simp add: js_match_def)
  with c show ?thesis by (auto dest: set_takeWhileD)
qed















lemma parseFloat_argument_instagram:
  "js_match cls_instagram s = Some (m1, m2) \<Longrightarrow>
     \<forall>c\<in>set (filter (\<lambda>c. c \<noteq> CHR '','') m1). is_digit c \<or> c = CHR ''.''"
  by (auto simp: cls_instagram_def dest!: js_match_group1)

lemma parseFloat_argument_tiktok:
  "js_match cls_tiktok s = Some (m1, m2) \<Longrightarrow> \<forall>c\<in>set m1. is_digit c \<or> c = CHR ''.''"
  by (auto simp: cls_tiktok_def dest!: js_match_group1)

lemma parseFloat_nonneg: "parseFloat s = Finite a \<Longrightarrow> 0 \<le> a"
  by (auto simp: parseFloat_def Let_def split: if_splits dest: to_double_nonneg)

lemma Math_floor_times_shape:
  assumes "Math_floor (js_times num k) = Finite y"
  shows "\<exists>n. 0 \<le> n \<and> y = of_int n"
proof (cases num)
  case (Finite a)
  with assms obtain b where b: "to_double (a * k) = Finite b" and y: "y = of_int \<lfloor>b\<rfloor>"
    by (cases "to_double (a * k)") auto
  from b have "0 \<le> b" by (rule to_double_nonneg)
  then have "0 \<le> \<lfloor>b\<rfloor>" by simp
  with y show ?thesis by blast
qed (use assms in auto)

lemma scale_floor_shape:
  assumes "scale_floor num sfx = Finite y" and "\<And>a. num = Finite a \<Longrightarrow> 0 \<le> a"
  shows "\<exists>n. 0 \<le> n \<and> y = of_int n"
proof (cases "sfx = ''K'' \<or> sfx = ''M'' \<or> sfx = ''B''")
  case True
  then show ?thesis
    using assms(1) Math_floor_times_shape [of num _ y]
    by (auto simp: scale_floor_def)
next
  case False
  with assms(1) have m: "Math_floor num = Finite y" by (simp add: scale_floor_def)
  then obtain a where a: "num = Finite a" and y: "y = of_int \<lfloor>a\<rfloor>" by (cases num) auto
  from assms(2) [OF a] have "0 \<le> \<lfloor>a\<rfloor>" by simp
  with y show ?thesis by blast
qed

text \<open>
  A finite result of either normalizer is a non-negative integer: what is left of claim
  C6 once \<open>NaN\<close> (no digit in the first run) and \<open>Infinity\<close> (a number past the range of
  a double) are set aside.
\<close>

lemma parseCount_finite_shape:
  shows "parseCount_instagram s = Finite y \<Longrightarrow> \<exists>n. 0 \<le> n \<and> y = of_int n"
    and "parseCount_tiktok s = Finite y \<Longrightarrow> \<exists>n. 0 \<le> n \<and> y = of_int n"
proof -
  have zero: "\<exists>n::int. 0 \<le> n \<and> (0::rat) = of_int n" by (rule exI [of _ 0]) simp
  show "\<exists>n. 0 \<le> n \<and> y = of_int n" if "parseCount_instagram s = Finite y"
    using that zero
    by (auto simp: parseCount_instagram_def split: if_splits option.splits
        intro: scale_floor_shape parseFloat_nonneg)
  show "\<exists>n. 0 \<le> n \<and> y = of_int n" if "parseCount_tiktok s = Finite y"
    using that zero
    by (auto simp: parseCount_tiktok_def Let_def split: if_splits option.splits
        intro: scale_floor_shape parseFloat_nonneg)
qed

text \<open>
  Claim C6 (fails on the code). A text whose first run of digits, dots and commas holds
  no digit matches the regular expression, so the guard \<^verbatim>\<open>if (!match) return 0\<close> does not
  fire; \<^verbatim>\<open>parseFloat\<close> then gives \<^verbatim>\<open>NaN\<close> and so does \<^verbatim>\<open>Math.floor\<close>. Both variants return
  \<^verbatim>\<open>NaN\<close> for the text of a single dot.
\<close>

theorem parseCount_of_a_dot_is_NaN:
  "parseCount_instagram ''.'' = NaN \<and> parseCount_tiktok ''.'' = NaN"
  by code_simp









section \<open>The control flow of a scrape job\<close>

lemma try_body_browser: "fst (try_body v w j) = (launch w = None)"
  by (simp add: try_body_def Let_def split: option.splits sum.splits)

lemma try_body_no_close: "filter is_close (fst (snd (try_body v w j))) = []"
  by (simp add: try_body_def Let_def split: option.splits sum.splits)

lemma except_clause_no_close: "filter is_close (fst (except_clause v w j e)) = []"
  by (simp add: except_clause_def Let_def split: sum.splits)

lemma except_clause_raises: "snd (except_clause v w j e) = Inl e"
  by (simp add: except_clause_def Let_def split: sum.splits)

lemma except_clause_posts:
  "fst (except_clause v w j e) = [Post (webhook_url j) (failure_payload v j (str e))]"
  by (simp add: except_clause_def Let_def split: sum.splits)

lemma scrape_profile_eq:
  "scrape_profile v w j =
     (let t = fst (snd (try_body v w j)); r = snd (snd (try_body v w j));
          t' = (case r of Inl e \<Rightarrow> t @ [Post (webhook_url j) (failure_payload v j (str e))] | Inr d \<Rightarrow> t)
      in (if launch w = None then t' @ [Close] else t', r))"
proof -
  obtain b t r where tb: "try_body v w j = (b, t, r)" by (cases "try_body v w j") auto
  have b: "b = (launch w = None)" using try_body_browser [of v w j] tb by simp
  show ?thesis
  proof (cases r)
    case (Inl e)
    obtain th rh where ec: "except_clause v w j e = (th, rh)" by (cases "except_clause v w j e") auto
    have "th = [Post (webhook_url j) (failure_payload v j (str e))]" "rh = Inl e"
      using except_clause_posts [of v w j e] except_clause_raises [of v w j e] ec by simp_all
    then show ?thesis using tb b Inl ec by (simp add: scrape_profile_def Let_def)
  next
    case (Inr d)
    then show ?thesis using tb b by (simp add: scrape_profile_def Let_def)
  qed
qed

lemma releases_scrape_profile:
  "releases (fst (scrape_profile v w j)) = (if launch w = None then 1 else 0)"
  using try_body_no_close [of v w j]
  by (simp add: scrape_profile_eq Let_def releases_def split: sum.splits)

lemma last_scrape_profile:
  "launch w = None \<Longrightarrow> last (fst (scrape_profile v w j)) = Close"
  by (simp add: scrape_profile_eq Let_def)

lemma not_launched_scrape_profile:
  "launch w = Some e \<Longrightarrow>
     scrape_profile v w j = ([Launch, Post (webhook_url j) (failure_payload v j (str e))], Inl e)"
  by (simp add: scrape_profile_eq Let_def try_body_def)

lemma raised_scrape_profile: "snd (scrape_profile v w j) = snd (snd (try_body v w j))"
  by (simp add: scrape_profile_eq Let_def)



text \<open>
  Claim C3. Whatever the world does (a navigation timeout, a readiness timeout, a fault
  of the script, a failed webhook call or no fault at all), a browser that was launched
  is closed exactly once, as the last action of the job. When the launch itself raised,
  \<^verbatim>\<open>browser\<close> is still \<^verbatim>\<open>None\<close>: the \<^verbatim>\<open>finally\<close> clause closes nothing and the
  launch error reaches the invoker.
\<close>
theorem browser_released_once_on_every_path:
  "(launch w = None \<longrightarrow>
      releases (fst (scrape_instagram_profile w j)) = 1 \<and>
      last (fst (scrape_instagram_profile w j)) = Close) \<and>
   (launch w = Some e \<longrightarrow>
      releases (fst (scrape_instagram_profile w j)) = 0 \<and>
      snd (scrape_instagram_profile w j) = Inl e) \<and>
   (launch w' = None \<longrightarrow>
      releases (fst (scrape_tiktok_profile w' j')) = 1 \<and>
      last (fst (scrape_tiktok_profile w' j')) = Close) \<and>
   (launch w' = Some e' \<longrightarrow>
      releases (fst (scrape_tiktok_profile w' j')) = 0 \<and>
      snd (scrape_tiktok_profile w' j') = Inl e')"
proof -
  have "(launch x = None \<longrightarrow>
           releases (fst (scrape_profile v x k)) = 1 \<and> last (fst (scrape_profile v x k)) = Close) \<and>
        (launch x = Some y \<longrightarrow>
           releases (fst (scrape_profile v x k)) = 0 \<and> snd (scrape_profile v x k) = Inl y)"
    for v :: "'d variant" and x k y
    by (simp add: releases_scrape_profile last_scrape_profile raised_scrape_profile try_body_def)
  from this [of w instagram j e] this [of w' tiktok j' e'] show ?thesis
    by (simp add: scrape_instagram_profile_def scrape_tiktok_profile_def)
qed

theorem browser_released_once_witness:
  "launch (navigation_timeout :: instagram_data world) = None \<and>
   releases (fst (scrape_instagram_profile navigation_timeout job1)) = 1 \<and>
   last (fst (scrape_instagram_profile navigation_timeout job1)) = Close \<and>
   snd (scrape_instagram_profile navigation_timeout job1) = Inl (Exn ''Timeout 30000ms exceeded.'') \<and>
   launch (launch_fails :: tiktok_data world) = Some (Exn ''Executable does not exist'') \<and>
   releases (fst (scrape_tiktok_profile launch_fails job1)) = 0 \<and>
   snd (scrape_tiktok_profile launch_fails job1) = Inl (Exn ''Executable does not exist'')"
proof -
  have a: "launch (navigation_timeout :: instagram_data world) = None"
    by (simp add: navigation_timeout_def healthy_def)
  have b: "launch (launch_fails :: tiktok_data world) = Some (Exn ''Executable does not exist'')"
    by (simp add: launch_fails_def healthy_def)
  have c: "snd (scrape_instagram_profile navigation_timeout job1) = Inl (Exn ''Timeout 30000ms exceeded.'')"
    by (simp add: scrape_instagram_profile_def raised_scrape_profile try_body_def Let_def
        navigation_timeout_def healthy_def)
  show ?thesis
    using browser_released_once_on_every_path
      [of "navigation_timeout :: instagram_data world" job1 "Exn []"
          "launch_fails :: tiktok_data world" job1 "Exn ''Executable does not exist''"]
      a b c
    by simp
qed



text \<open>
  Claim C1 (fails on the code). The success webhook call stands inside the \<^verbatim>\<open>try\<close>.
  When it raises, the \<^verbatim>\<open>except\<close> clause posts the failure payload as well: with an
  unreachable sink both scrape functions make two webhook calls in one job.
\<close>

theorem two_webhook_calls_when_success_post_raises:
  "webhook_calls (fst (scrape_instagram_profile sink_down job1)) = 2 \<and>
   webhook_calls (fst (scrape_tiktok_profile sink_down job1)) = 2"
  by (simp add: scrape_instagram_profile_def scrape_tiktok_profile_def scrape_profile_eq
      try_body_def Let_def sink_down_def healthy_def webhook_calls_def)

text \<open>
  Claim C5 (fails on the code). Every step up to the extraction succeeds and only the
  call that posts the success payload raises: the job does not return the extracted
  record, it raises the exception of the webhook call.
\<close>

theorem success_post_fault_fails_the_job:
  "snd (scrape_instagram_profile sink_rejects_success job1) = Inl (Exn ''ReadTimeout'') \<and>
   snd (scrape_tiktok_profile sink_rejects_success job1) = Inl (Exn ''ReadTimeout'')"
  by (simp add: scrape_instagram_profile_def scrape_tiktok_profile_def raised_scrape_profile
      try_body_def Let_def sink_rejects_success_def healthy_def success_payload_def)

section \<open>The extractor scripts\<close>

lemma parseCount_instagram_zero: "parseCount_instagram ''0'' = Finite 0"
  by code_simp

lemma parseCount_tiktok_zero: "parseCount_tiktok ''0'' = Finite 0"
  by code_simp

lemma querySelector_Nil: "querySelector [] sel = None"
  by (simp add: querySelector_def querySelectorAll_def)

lemma trimmed_text_None: "trimmed_text None = []"
  by (simp add: trimmed_text_def)

lemma src_or_empty_None: "src_or_empty None = []"
  by (simp add: src_or_empty_def)

lemma stat_or_zero_absent: "length stats \<le> i \<Longrightarrow> stat_or_zero stats i = ''0''"
  by (simp add: stat_or_zero_def)

lemma stat_text_None: "stat_text None = ''0''"
  by (simp add: stat_text_def)

lemma instagram_defaults:
  shows "querySelector doc ''header h2'' = None \<longrightarrow> ig_username (extract_instagram now doc) = []"
    and "querySelector doc ''header section div div span'' = None \<longrightarrow>
      ig_fullName (extract_instagram now doc) = []"
    and "querySelector doc ''header section div span'' = None \<longrightarrow>
      ig_bio (extract_instagram now doc) = []"
    and "querySelector doc ''header img'' = None \<longrightarrow>
      ig_profilePicUrl (extract_instagram now doc) = []"
    and "querySelector doc sel_verified_svg = None \<longrightarrow> \<not> ig_isVerified (extract_instagram now doc)"
    and "querySelector doc ''h2'' = None \<longrightarrow> \<not> ig_isPrivate (extract_instagram now doc)"
    and "length (querySelectorAll doc ''header section ul li'') \<le> 0 \<longrightarrow>
      ig_posts (extract_instagram now doc) = Finite 0"
    and "length (querySelectorAll doc ''header section ul li'') \<le> 1 \<longrightarrow>
      ig_followers (extract_instagram now doc) = Finite 0"
    and "length (querySelectorAll doc ''header section ul li'') \<le> 2 \<longrightarrow>
      ig_following (extract_instagram now doc) = Finite 0"
  by (simp_all add: extract_instagram_def Let_def trimmed_text_None src_or_empty_None
      stat_or_zero_absent parseCount_instagram_zero)

lemma tiktok_defaults:
  shows "querySelector doc sel_user_title = None \<longrightarrow> tt_username (extract_tiktok now doc) = []"
    and "querySelector doc sel_user_bio = None \<longrightarrow> tt_bio (extract_tiktok now doc) = []"
    and "querySelector doc sel_user_avatar = None \<longrightarrow> tt_avatar (extract_tiktok now doc) = []"
    and "querySelector doc sel_followers = None \<longrightarrow> tt_followers (extract_tiktok now doc) = Finite 0"
    and "querySelector doc sel_following = None \<longrightarrow> tt_following (extract_tiktok now doc) = Finite 0"
    and "querySelector doc sel_likes = None \<longrightarrow> tt_likes (extract_tiktok now doc) = Finite 0"
    and "querySelector doc sel_verified_badge = None \<longrightarrow> \<not> tt_verified (extract_tiktok now doc)"
  by (simp_all add: extract_tiktok_def Let_def trimmed_text_None src_or_empty_None
      stat_text_None parseCount_tiktok_zero)

lemma scrape_profile_success:
  "launch w = None \<Longrightarrow> new_context w = None \<Longrightarrow> new_page w = None \<Longrightarrow>
   goto w (profile_url v (username j)) = None \<Longrightarrow>
   wait_for_selector w (ready_selector v) = None \<Longrightarrow> evaluate_fault w = None \<Longrightarrow>
   post w (webhook_url j) (success_payload v j (script v (clock w) (page_dom w))) = Inr r \<Longrightarrow>
   scrape_profile v w j =
     ([Launch, NewContext, NewPage, Goto (profile_url v (username j)),
       WaitForSelector (ready_selector v), Evaluate,
       Post (webhook_url j) (success_payload v j (script v (clock w) (page_dom w))), Close],
      Inr (script v (clock w) (page_dom w)))"
  by (simp add: scrape_profile_eq try_body_def Let_def)

lemma video_of_item_defaults:
  "(querySelector (below item) ''a'' = None \<longrightarrow> link (video_of_item item) = []) \<and>
   (querySelector (below item) sel_video_views = None \<longrightarrow> views (video_of_item item) = Finite 0)"
  by (simp add: video_of_item_def href_or_empty_def views_text_def parseCount_tiktok_zero)

lemma recentVideos_eq:
  "tt_recentVideos (extract_tiktok now doc) =
     map video_of_item (take 12 (querySelectorAll doc sel_post_item))"
  by (simp add: extract_tiktok_def Let_def)

lemma videos_eq: "tt_videos (extract_tiktok now doc) = length (querySelectorAll doc sel_post_item)"
  by (simp add: extract_tiktok_def Let_def)


text \<open>
  Claim C8. In both scripts every field read has its own default: a text or URL field
  whose node is absent is the empty string, a flag is false and a count is 0, whatever
  the rest of the page holds; and with any page at all, a job whose browser steps and
  webhook call succeed returns the extracted record.
\<close>

theorem missing_nodes_are_defaulted:
  "(querySelector doc ''header h2'' = None \<longrightarrow> ig_username (extract_instagram now doc) = []) \<and>
   (querySelector doc ''header section div div span'' = None \<longrightarrow>
      ig_fullName (extract_instagram now doc) = []) \<and>
   (querySelector doc ''header section div span'' = None \<longrightarrow>
      ig_bio (extract_instagram now doc) = []) \<and>
   (querySelector doc ''header img'' = None \<longrightarrow>
      ig_profilePicUrl (extract_instagram now doc) = []) \<and>
   (querySelector doc sel_verified_svg = None \<longrightarrow> \<not> ig_isVerified (extract_instagram now doc)) \<and>
   (querySelector doc ''h2'' = None \<longrightarrow> \<not> ig_isPrivate (extract_instagram now doc)) \<and>
   (length (querySelectorAll doc ''header section ul li'') \<le> 0 \<longrightarrow>
      ig_posts (extract_instagram now doc) = Finite 0) \<and>
   (length (querySelectorAll doc ''header section ul li'') \<le> 1 \<longrightarrow>
      ig_followers (extract_instagram now doc) = Finite 0) \<and>
   (length (querySelectorAll doc ''header section ul li'') \<le> 2 \<longrightarrow>
      ig_following (extract_instagram now doc) = Finite 0) \<and>
   (querySelector doc sel_user_title = None \<longrightarrow> tt_username (extract_tiktok now doc) = []) \<and>
   (querySelector doc sel_user_bio = None \<longrightarrow> tt_bio (extract_tiktok now doc) = []) \<and>
   (querySelector doc sel_user_avatar = None \<longrightarrow> tt_avatar (extract_tiktok now doc) = []) \<and>
   (querySelector doc sel_followers = None \<longrightarrow> tt_followers (extract_tiktok now doc) = Finite 0) \<and>
   (querySelector doc sel_following = None \<longrightarrow> tt_following (extract_tiktok now doc) = Finite 0) \<and>
   (querySelector doc sel_likes = None \<longrightarrow> tt_likes (extract_tiktok now doc) = Finite 0) \<and>
   (querySelector doc sel_verified_badge = None \<longrightarrow> \<not> tt_verified (extract_tiktok now doc)) \<and>
   (launch w = None \<and> new_context w = None \<and> new_page w = None \<and>
    goto w (''https://www.instagram.com/'' @ username j @ ''/'') = None \<and>
    wait_for_selector w ''header'' = None \<and> evaluate_fault w = None \<and>
    post w (webhook_url j)
      \<lparr>jobId = job_id j, status = ''completed'', platform = ''Instagram'',
       data = Some (extract_instagram (clock w) (page_dom w)), error = None\<rparr> = Inr r \<longrightarrow>
    snd (scrape_instagram_profile w j) = Inr (extract_instagram (clock w) (page_dom w))) \<and>
   (launch w' = None \<and> new_context w' = None \<and> new_page w' = None \<and>
    goto w' (''https://www.tiktok.com/@'' @ username j') = None \<and>
    wait_for_selector w' sel_user_page = None \<and> evaluate_fault w' = None \<and>
    post w' (webhook_url j')
      \<lparr>jobId = job_id j', status = ''completed'', platform = ''TikTok'',
       data = Some (extract_tiktok (clock w') (page_dom w')), error = None\<rparr> = Inr r' \<longrightarrow>
    snd (scrape_tiktok_profile w' j') = Inr (extract_tiktok (clock w') (page_dom w')))"
proof -
  have ig: "snd (scrape_instagram_profile w j) = Inr (extract_instagram (clock w) (page_dom w))"
    if "launch w = None" "new_context w = None" "new_page w = None"
       "goto w (''https://www.instagram.com/'' @ username j @ ''/'') = None"
       "wait_for_selector w ''header'' = None" "evaluate_fault w = None"
       "post w (webhook_url j)
          \<lparr>jobId = job_id j, status = ''completed'', platform = ''Instagram'',
           data = Some (extract_instagram (clock w) (page_dom w)), error = None\<rparr> = Inr r"
    using that scrape_profile_success [of w instagram j r]
    by (simp add: scrape_instagram_profile_def instagram_def success_payload_def)
  have tt: "snd (scrape_tiktok_profile w' j') = Inr (extract_tiktok (clock w') (page_dom w'))"
    if "launch w' = None" "new_context w' = None" "new_page w' = None"
       "goto w' (''https://www.tiktok.com/@'' @ username j') = None"
       "wait_for_selector w' sel_user_page = None" "evaluate_fault w' = None"
       "post w' (webhook_url j')
          \<lparr>jobId = job_id j', status = ''completed'', platform = ''TikTok'',
           data = Some (extract_tiktok (clock w') (page_dom w')), error = None\<rparr> = Inr r'"
    using that scrape_profile_success [of w' tiktok j' r']
    by (simp add: scrape_tiktok_profile_def tiktok_def success_payload_def)
  from ig have ig': "launch w = None \<and> new_context w = None \<and> new_page w = None \<and>
    goto w (''https://www.instagram.com/'' @ username j @ ''/'') = None \<and>
    wait_for_selector w ''header'' = None \<and> evaluate_fault w = None \<and>
    post w (webhook_url j)
      \<lparr>jobId = job_id j, status = ''completed'', platform = ''Instagram'',
       data = Some (extract_instagram (clock w) (page_dom w)), error = None\<rparr> = Inr r \<longrightarrow>
    snd (scrape_instagram_profile w j) = Inr (extract_instagram (clock w) (page_dom w))"
    by (intro impI) (elim conjE)
  from tt have tt': "launch w' = None \<and> new_context w' = None \<and> new_page w' = None \<and>
    goto w' (''https://www.tiktok.com/@'' @ username j') = None \<and>
    wait_for_selector w' sel_user_page = None \<and> evaluate_fault w' = None \<and>
    post w' (webhook_url j')
      \<lparr>jobId = job_id j', status = ''completed'', platform = ''TikTok'',
       data = Some (extract_tiktok (clock w') (page_dom w')), error = None\<rparr> = Inr r' \<longrightarrow>
    snd (scrape_tiktok_profile w' j') = Inr (extract_tiktok (clock w') (page_dom w'))"
    by (intro impI) (elim conjE)
  show ?thesis
    by (intro conjI) (rule instagram_defaults tiktok_defaults ig' tt')+
qed

theorem missing_nodes_witness:
  "querySelector page_without_bio_and_avatar ''header section div span'' = None \<and>
   querySelector page_without_bio_and_avatar ''header img'' = None \<and>
   ig_bio (extract_instagram ''2024-01-01T00:00:00.000Z'' page_without_bio_and_avatar) = [] \<and>
   ig_profilePicUrl (extract_instagram ''2024-01-01T00:00:00.000Z'' page_without_bio_and_avatar) = [] \<and>
   snd (scrape_instagram_profile (healthy page_without_bio_and_avatar) job1) =
     Inr (extract_instagram ''2024-01-01T00:00:00.000Z'' page_without_bio_and_avatar) \<and>
   querySelector page_without_bio_and_avatar sel_user_bio = None \<and>
   querySelector page_without_bio_and_avatar sel_user_avatar = None \<and>
   tt_bio (extract_tiktok ''2024-01-01T00:00:00.000Z'' page_without_bio_and_avatar) = [] \<and>
   tt_avatar (extract_tiktok ''2024-01-01T00:00:00.000Z'' page_without_bio_and_avatar) = [] \<and>
   snd (scrape_tiktok_profile (healthy page_without_bio_and_avatar) job1) =
     Inr (extract_tiktok ''2024-01-01T00:00:00.000Z'' page_without_bio_and_avatar)"
proof -
  have q: "querySelector page_without_bio_and_avatar ''header section div span'' = None"
    "querySelector page_without_bio_and_avatar ''header img'' = None"
    "querySelector page_without_bio_and_avatar sel_user_bio = None"
    "querySelector page_without_bio_and_avatar sel_user_avatar = None"
    by (simp_all add: page_without_bio_and_avatar_def querySelector_def querySelectorAll_def
        sel_user_bio_def sel_user_avatar_def)
  show ?thesis
    using q missing_nodes_are_defaulted
      [of page_without_bio_and_avatar "''2024-01-01T00:00:00.000Z''"
          "healthy page_without_bio_and_avatar" job1 200
          "healthy page_without_bio_and_avatar" job1 200]
    by (simp add: healthy_def)
qed

text \<open>
  Claim C9. The TikTok script returns one \<open>{link, views}\<close> entry for each of the first
  twelve post items and no more: \<open>min n 12\<close> entries for \<open>n\<close> items. An item without a
  link node has the empty string as its link, one without a views node has 0 views, and
  the job returns the record whatever the number of items.
\<close>

theorem recent_videos_bounded_and_defaulted:
  "length (tt_recentVideos (extract_tiktok now doc)) =
     min (length (querySelectorAll doc sel_post_item)) 12 \<and>
   (\<forall>i < min (length (querySelectorAll doc sel_post_item)) 12.
      (querySelector (below (querySelectorAll doc sel_post_item ! i)) ''a'' = None \<longrightarrow>
         link (tt_recentVideos (extract_tiktok now doc) ! i) = []) \<and>
      (querySelector (below (querySelectorAll doc sel_post_item ! i)) sel_video_views = None \<longrightarrow>
         views (tt_recentVideos (extract_tiktok now doc) ! i) = Finite 0)) \<and>
   (launch w = None \<and> new_context w = None \<and> new_page w = None \<and>
    goto w (''https://www.tiktok.com/@'' @ username j) = None \<and>
    wait_for_selector w sel_user_page = None \<and> evaluate_fault w = None \<and>
    post w (webhook_url j) (success_payload tiktok j (extract_tiktok (clock w) (page_dom w))) = Inr r \<longrightarrow>
    snd (scrape_tiktok_profile w j) = Inr (extract_tiktok (clock w) (page_dom w)))"
proof -
  let ?items = "querySelectorAll doc sel_post_item"
  have len: "length (tt_recentVideos (extract_tiktok now doc)) = min (length ?items) 12"
    by (simp add: recentVideos_eq)
  have nth: "tt_recentVideos (extract_tiktok now doc) ! i = video_of_item (?items ! i)"
    if "i < min (length ?items) 12" for i
    using that by (simp add: recentVideos_eq)
  have job: "snd (scrape_tiktok_profile w j) = Inr (extract_tiktok (clock w) (page_dom w))"
    if "launch w = None" "new_context w = None" "new_page w = None"
       "goto w (''https://www.tiktok.com/@'' @ username j) = None"
       "wait_for_selector w sel_user_page = None" "evaluate_fault w = None"
       "post w (webhook_url j) (success_payload tiktok j (extract_tiktok (clock w) (page_dom w))) = Inr r"
    using that scrape_profile_success [of w tiktok j r]
    by (simp add: scrape_tiktok_profile_def tiktok_def)
  show ?thesis
    using len nth video_of_item_defaults job by simp
qed

theorem recent_videos_witness:
  "length (querySelectorAll tiktok_page_two_items sel_post_item) = 2 \<and>
   length (tt_recentVideos (extract_tiktok ''2024-01-01T00:00:00.000Z'' tiktok_page_two_items)) = 2 \<and>
   querySelector (below (querySelectorAll tiktok_page_two_items sel_post_item ! 1)) ''a'' = None \<and>
   link (tt_recentVideos (extract_tiktok ''2024-01-01T00:00:00.000Z'' tiktok_page_two_items) ! 1) = [] \<and>
   views (tt_recentVideos (extract_tiktok ''2024-01-01T00:00:00.000Z'' tiktok_page_two_items) ! 1) = Finite 0 \<and>
   snd (scrape_tiktok_profile (healthy tiktok_page_two_items) job1) =
     Inr (extract_tiktok ''2024-01-01T00:00:00.000Z'' tiktok_page_two_items)"
proof -
  have items: "querySelectorAll tiktok_page_two_items sel_post_item =
     [Element [] None [] []
        [(''a'', [Element [] None [] ''https://www.tiktok.com/@charlidamelio/video/1'' []]),
         (sel_video_views, [Element ''1.2M'' None [] [] []])],
      Element [] None [] [] []]"
    by (simp add: tiktok_page_two_items_def querySelectorAll_def sel_post_item_def
        sel_user_title_def sel_followers_def)
  have q: "querySelector (below (querySelectorAll tiktok_page_two_items sel_post_item ! 1)) s = None" for s
    by (simp add: items querySelector_Nil)
  show ?thesis
    using recent_videos_bounded_and_defaulted
      [of "''2024-01-01T00:00:00.000Z''" tiktok_page_two_items "healthy tiktok_page_two_items" job1 200]
      q
    by (simp add: items healthy_def)
qed

text \<open>
  Claim C10. \<open>videos\<close> is the number of post items on the page (no total is parsed from
  the profile header), so the list of recent videos has \<open>min videos 12\<close> entries.
\<close>

theorem videos_counts_post_items:
  "tt_videos (extract_tiktok now doc) = length (querySelectorAll doc sel_post_item) \<and>
   length (tt_recentVideos (extract_tiktok now doc)) = min (tt_videos (extract_tiktok now doc)) 12"
  by (simp add: videos_eq recentVideos_eq)

end
